theory Spec2Isabelle
  imports Complex_Main "HOL-Library.Multiset"
begin

section \<open>Data model of the health-insights store\<close>

text \<open>
  A value read from a record: \<open>null\<close>, a number, a string, or \<open>JObject\<close> for any
  other value (an object or a function). A field that is absent (\<open>undefined\<close>) is
  \<open>None\<close> in the field map of the record.
\<close>

datatype jsval = JNull | JNum real | JStr string | JObject

text \<open>
  \<open>interface MetricData { date: string; [key: string]: string | number | null | undefined }\<close>
\<close>

record MetricData =
  date :: string
  readings :: "string \<rightharpoonup> jsval"

record HealthProfile =
  weight :: "string option"
  height :: "string option"
  age :: "string option"
  blood_group :: "string option"
  allergies :: "string list option"

record HealthData =
  summary :: string
  profile :: "HealthProfile option"
  available_metrics :: "string list option"
  metrics :: "MetricData list"
  tips :: "string list"

section \<open>Series normalisation (the filter and sort of generateInsights)\<close>

text \<open>
  The names that every object parsed from JSON inherits from \<open>Object.prototype\<close>. Read
  on a record that has no property of its own under the name, each of them gives a
  function, and \<open>__proto__\<close> gives the prototype object: never \<open>null\<close> or
  \<open>undefined\<close>.
\<close>

definition objectPrototypeKeys :: "string list" where
  "objectPrototypeKeys =
     [''constructor'', ''hasOwnProperty'', ''isPrototypeOf'', ''propertyIsEnumerable'',
      ''toLocaleString'', ''toString'', ''valueOf'', ''__proto__'',
      ''__defineGetter__'', ''__defineSetter__'', ''__lookupGetter__'', ''__lookupSetter__'']"

text \<open>
  The property read \<open>m[key]\<close>: the key \<open>date\<close> is a property of every record, a
  property of the record itself comes before an inherited one, and a name that is neither
  reads as \<open>undefined\<close>.
\<close>

definition getProp :: "MetricData \<Rightarrow> string \<Rightarrow> jsval option" where
  "getProp m key =
     (if key = ''date'' then Some (JStr (date m))
      else (case readings m key of
              Some v \<Rightarrow> Some v
            | None \<Rightarrow> if key \<in> set objectPrototypeKeys then Some JObject else None))"

text \<open>The loose test \<open>v != null\<close>: false for \<open>null\<close> and for \<open>undefined\<close> only.\<close>

fun not_nullish :: "jsval option \<Rightarrow> bool" where
  "not_nullish None = False"
| "not_nullish (Some JNull) = False"
| "not_nullish (Some v) = True"

text \<open>
  The filter callback:
  \<^verbatim>\<open>if (!available_metrics || available_metrics.length === 0) return true;
  return available_metrics.some((key) => m[key] != null);\<close>
\<close>

definition keepMetric :: "string list option \<Rightarrow> MetricData \<Rightarrow> bool" where
  "keepMetric am m =
     (case am of
        None \<Rightarrow> True
      | Some ks \<Rightarrow> if length ks = 0 then True
                   else list_ex (\<lambda>key. not_nullish (getProp m key)) ks)"

text \<open>
  The comparator \<open>new Date(a.date).getTime() - new Date(b.date).getTime()\<close>. The date
  parser is the platform's; it is the parameter \<open>getTime\<close>, with \<open>None\<close> for the
  \<open>NaN\<close> of an invalid date. A difference with \<open>NaN\<close> is \<open>NaN\<close>.
\<close>

definition byDate :: "(string \<Rightarrow> int option) \<Rightarrow> MetricData \<Rightarrow> MetricData \<Rightarrow> int option" where
  "byDate getTime a b =
     (case getTime (date a) of
        None \<Rightarrow> None
      | Some x \<Rightarrow> (case getTime (date b) of None \<Rightarrow> None | Some y \<Rightarrow> Some (x - y)))"

text \<open>
  \<open>Array.prototype.sort\<close> with a comparator: a stable sort, in which a comparator result
  of \<open>NaN\<close> counts as \<open>0\<close>. It is modelled as a stable insertion sort: an element moves
  behind exactly the elements it compares greater than. When every date parses the
  comparator is a consistent order and every stable sort gives this result. When a date
  does not parse the comparator is not consistent, the order of the result is the
  engine's own, and the model stands for it only in which records the result holds; so
  whatever is proved below about the order is proved for dates that parse.
\<close>

fun sort_insert :: "('a \<Rightarrow> 'a \<Rightarrow> int option) \<Rightarrow> 'a \<Rightarrow> 'a list \<Rightarrow> 'a list" where
  "sort_insert cmp x [] = [x]"
| "sort_insert cmp x (y # ys) =
     (if (case cmp x y of None \<Rightarrow> 0 | Some v \<Rightarrow> v) > 0
      then y # sort_insert cmp x ys
      else x # y # ys)"

definition array_sort :: "('a \<Rightarrow> 'a \<Rightarrow> int option) \<Rightarrow> 'a list \<Rightarrow> 'a list" where
  "array_sort cmp xs = foldr (sort_insert cmp) xs []"

text \<open>\<open>validMetrics\<close> of generateInsights.\<close>

definition validMetrics :: "(string \<Rightarrow> int option) \<Rightarrow> HealthData \<Rightarrow> MetricData list" where
  "validMetrics getTime d =
     array_sort (byDate getTime) (filter (keepMetric (available_metrics d)) (metrics d))"

text \<open>The dates of a record list all parse.\<close>

definition dates_parse :: "(string \<Rightarrow> int option) \<Rightarrow> MetricData list \<Rightarrow> bool" where
  "dates_parse getTime ms = list_all (\<lambda>m. getTime (date m) \<noteq> None) ms"

text \<open>The order of two records by parsed date.\<close>

definition date_le :: "(string \<Rightarrow> int option) \<Rightarrow> MetricData \<Rightarrow> MetricData \<Rightarrow> bool" where
  "date_le getTime a b =
     (case getTime (date a) of
        None \<Rightarrow> False
      | Some x \<Rightarrow> (case getTime (date b) of None \<Rightarrow> False | Some y \<Rightarrow> x \<le> y))"

text \<open>A small calendar for concrete runs: milliseconds since the epoch of three dates.\<close>

definition sampleTime :: "string \<Rightarrow> int option" where
  "sampleTime s =
     (if s = ''2024-01-01'' then Some 1704067200000
      else if s = ''2024-02-01'' then Some 1706745600000
      else if s = ''2024-03-01'' then Some 1709251200000
      else None)"

text \<open>The numeric key under which a record with a parsed date is sorted.\<close>

definition time_key :: "(string \<Rightarrow> int option) \<Rightarrow> MetricData \<Rightarrow> int" where
  "time_key getTime m = (case getTime (date m) of None \<Rightarrow> 0 | Some t \<Rightarrow> t)"


section \<open>The store and the load operation (generateInsights)\<close>

text \<open>The zustand store \<open>useHealthInsightsStore\<close> and its initial value.\<close>

record HealthInsightsState =
  data :: "HealthData option"
  loading :: bool
  error :: "string option"
  hasLoaded :: bool

definition initialStore :: HealthInsightsState where
  "initialStore = \<lparr>data = None, loading = False, error = None, hasLoaded = False\<rparr>"

definition setData :: "HealthData option \<Rightarrow> HealthInsightsState \<Rightarrow> HealthInsightsState" where
  "setData v s = s\<lparr>data := v\<rparr>"

definition setLoading :: "bool \<Rightarrow> HealthInsightsState \<Rightarrow> HealthInsightsState" where
  "setLoading v s = s\<lparr>loading := v\<rparr>"

definition setError :: "string option \<Rightarrow> HealthInsightsState \<Rightarrow> HealthInsightsState" where
  "setError v s = s\<lparr>error := v\<rparr>"

definition setHasLoaded :: "bool \<Rightarrow> HealthInsightsState \<Rightarrow> HealthInsightsState" where
  "setHasLoaded v s = s\<lparr>hasLoaded := v\<rparr>"

text \<open>
  The state of the page component: the store, the component's own \<open>patientId\<close> and
  \<open>isDownloading\<close>, and what the user has been shown or handed: the texts passed to
  \<open>alert\<close> and the names of the files saved.
\<close>

record page_state =
  store :: HealthInsightsState
  patientId :: "string option"
  isDownloading :: bool
  alerts :: "string list"
  downloads :: "string list"

text \<open>
  A thrown value. \<open>TypeError\<close> is the engine's error for reading a property of
  \<open>undefined\<close>; its text is the engine's and is never empty.
\<close>

datatype exn = Error string | TypeError

fun message :: "exn \<Rightarrow> string" where
  "message (Error m) = m"
| "message TypeError = ''Cannot read properties of undefined''"

text \<open>\<open>v || d\<close> on an optional string: \<open>undefined\<close>, \<open>null\<close> and the empty string are falsy.\<close>

definition or_default :: "string option \<Rightarrow> string \<Rightarrow> string" where
  "or_default v d = (case v of None \<Rightarrow> d | Some s \<Rightarrow> if s = [] then d else s)"

definition truthy :: "string option \<Rightarrow> bool" where
  "truthy v = (case v of None \<Rightarrow> False | Some s \<Rightarrow> s \<noteq> [])"

text \<open>
  An action of an async function on the page: it ends with the page state it has
  reached, and with the exception that escaped it, if one did.
\<close>

type_synonym action = "page_state \<Rightarrow> exn option \<times> page_state"

text \<open>
  \<open>try { body } catch (err) { handler } finally { fin }\<close>: the handler runs in the state
  where the body threw, \<open>fin\<close> runs in every case, and what the handler or \<open>fin\<close> throws
  escapes.
\<close>

definition try_catch_finally :: "action \<Rightarrow> (exn \<Rightarrow> action) \<Rightarrow> action \<Rightarrow> action" where
  "try_catch_finally body handler fin s =
     (let (thrown, s1) = body s;
          (escaped, s2) = (case thrown of None \<Rightarrow> (None, s1) | Some e \<Rightarrow> handler e s1);
          (late, s3) = fin s2
      in (case late of None \<Rightarrow> (escaped, s3) | Some e \<Rightarrow> (Some e, s3)))"

text \<open>What the awaited \<open>fetch\<close> and \<open>response.json()\<close> can come back with.\<close>

record api_result =
  success :: bool
  detail :: "string option"
  result_data :: "HealthData option"

datatype json_outcome = JsonRejected string | Json api_result

record response =
  ok :: bool
  json :: json_outcome

datatype fetch_outcome = FetchRejected string | Resolved response

text \<open>
  The try block up to the first store write: every throw of it, and otherwise the value
  \<open>{ ...result.data, metrics: validMetrics }\<close>.
\<close>

definition fetchInsights :: "(string \<Rightarrow> int option) \<Rightarrow> fetch_outcome \<Rightarrow> exn + HealthData" where
  "fetchInsights getTime r =
     (case r of
        FetchRejected msg \<Rightarrow> Inl (Error msg)
      | Resolved resp \<Rightarrow>
          if \<not> ok resp then Inl (Error ''Failed to fetch health insights'')
          else (case json resp of
                  JsonRejected msg \<Rightarrow> Inl (Error msg)
                | Json result \<Rightarrow>
                    if \<not> success result
                    then Inl (Error (or_default (detail result) ''Unknown error''))
                    else (case result_data result of
                            None \<Rightarrow> Inl TypeError
                          | Some d \<Rightarrow> Inr (d\<lparr>metrics := validMetrics getTime d\<rparr>))))"

definition loadBody :: "(string \<Rightarrow> int option) \<Rightarrow> fetch_outcome \<Rightarrow> action" where
  "loadBody getTime r s =
     (case fetchInsights getTime r of
        Inl e \<Rightarrow> (Some e, s)
      | Inr d \<Rightarrow> (None, s\<lparr>store := setHasLoaded True (setData (Some d) (store s))\<rparr>))"

definition loadCatch :: "exn \<Rightarrow> action" where
  "loadCatch err s =
     (None, s\<lparr>store := setError (Some (or_default (Some (message err))
                                      ''Could not load health insights.'')) (store s)\<rparr>)"

definition loadFinally :: action where
  "loadFinally s = (None, s\<lparr>store := setLoading False (store s)\<rparr>)"

text \<open>The part of generateInsights before the \<open>await\<close>, once \<open>patientId\<close> is truthy.\<close>

definition generateInsights_begin :: "page_state \<Rightarrow> page_state" where
  "generateInsights_begin s = s\<lparr>store := setError None (setLoading True (store s))\<rparr>"

text \<open>The continuation that runs when the fetch has settled with \<open>r\<close>.\<close>

definition generateInsights_settle :: "(string \<Rightarrow> int option) \<Rightarrow> fetch_outcome \<Rightarrow> action" where
  "generateInsights_settle getTime r = try_catch_finally (loadBody getTime r) loadCatch loadFinally"

definition generateInsights :: "(string \<Rightarrow> int option) \<Rightarrow> fetch_outcome \<Rightarrow> action" where
  "generateInsights getTime r s =
     (if \<not> truthy (patientId s) then (None, s)
      else generateInsights_settle getTime r (generateInsights_begin s))"

text \<open>A page in its first state, for a resolved patient.\<close>

definition freshPage :: "string \<Rightarrow> page_state" where
  "freshPage pid =
     \<lparr>store = initialStore, patientId = Some pid, isDownloading = False,
      alerts = [], downloads = []\<rparr>"

section \<open>The chart series\<close>

definition DYNAMIC_COLORS :: "string list" where
  "DYNAMIC_COLORS =
     [''#ef4444'', ''#3b82f6'', ''#10b981'', ''#f59e0b'', ''#8b5cf6'', ''#ec4899'', ''#14b8a6'']"

text \<open>The properties of an \<open>Area\<close> element that differ from series to series.\<close>

record Area =
  dataKey :: string
  name :: string
  stroke :: string
  fill :: string
  connectNulls :: bool

text \<open>The decimal text of an index, as a template literal prints it.\<close>

fun decimal :: "nat \<Rightarrow> string" where
  "decimal n =
     (if n < 10 then [''0123456789'' ! n]
      else decimal (n div 10) @ [''0123456789'' ! (n mod 10)])"

text \<open>
  The series of the page's chart:
  \<open>data.available_metrics && data.available_metrics.map((metric, idx) => <Area .../>)\<close>.
\<close>

definition pageAreas :: "string list option \<Rightarrow> Area list" where
  "pageAreas am =
     (case am of
        None \<Rightarrow> []
      | Some ks \<Rightarrow>
          map (\<lambda>(metric, idx).
                 \<lparr>dataKey = metric, name = metric,
                  stroke = DYNAMIC_COLORS ! (idx mod length DYNAMIC_COLORS),
                  fill = ''url(#color'' @ decimal idx @ '')'',
                  connectNulls = True\<rparr>)
              (zip ks [0..<length ks]))"

text \<open>The colour each key is drawn in: the pairs of a series' key and its stroke.\<close>

definition assignedColors :: "string list \<Rightarrow> (string \<times> string) list" where
  "assignedColors ks = map (\<lambda>a. (dataKey a, stroke a)) (pageAreas (Some ks))"

section \<open>The report export (downloadPDF)\<close>

text \<open>
  What the capture and the document library do when called: \<open>html2canvas\<close> resolves
  with a canvas or rejects, \<open>canvas.toDataURL\<close> returns the image or throws, and
  \<open>pdf.addImage\<close> and \<open>pdf.save\<close> may throw. \<open>today\<close> is
  \<open>new Date().toISOString().split('T')[0]\<close>.
\<close>

record canvas =
  canvas_width :: real
  canvas_height :: real
  toDataURL :: "exn + string"

record export_env =
  html2canvas :: "exn + canvas"
  addImage :: "exn option"
  save :: "exn option"
  today :: string

definition exportBody :: "export_env \<Rightarrow> action" where
  "exportBody env s =
     (case html2canvas env of
        Inl e \<Rightarrow> (Some e, s)
      | Inr cv \<Rightarrow>
          (case toDataURL cv of
             Inl e \<Rightarrow> (Some e, s)
           | Inr imgData \<Rightarrow>
               (case addImage env of
                  Some e \<Rightarrow> (Some e, s)
                | None \<Rightarrow>
                    (case save env of
                       Some e \<Rightarrow> (Some e, s)
                     | None \<Rightarrow>
                         (None, s\<lparr>downloads := downloads s
                                    @ [''Health_Insights_Report_'' @ today env @ ''.pdf'']\<rparr>)))))"

definition exportCatch :: "exn \<Rightarrow> action" where
  "exportCatch err s = (None, s\<lparr>alerts := alerts s @ [''Failed to generate PDF report.'']\<rparr>)"

definition exportFinally :: action where
  "exportFinally s = (None, s\<lparr>isDownloading := False\<rparr>)"

text \<open>
  downloadPDF; \<open>mounted\<close> says whether \<open>reportRef.current\<close> holds the report element.
\<close>

definition downloadPDF :: "export_env \<Rightarrow> bool \<Rightarrow> action" where
  "downloadPDF env mounted s =
     (if \<not> mounted then (None, s)
      else try_catch_finally (exportBody env) exportCatch exportFinally
             (s\<lparr>isDownloading := True\<rparr>))"

section \<open>Concrete inputs\<close>

text \<open>
  Four records declared under the key \<open>hr\<close>: the second has no reading, the last three
  share a date, and a reading of zero is a reading.
\<close>

definition exampleData :: HealthData where
  "exampleData =
     \<lparr>summary = ''ok'', profile = None, available_metrics = Some [''hr''],
      metrics =
        [\<lparr>date = ''2024-02-01'', readings = [''hr'' \<mapsto> JNum 70]\<rparr>,
         \<lparr>date = ''2024-01-01'', readings = [''hr'' \<mapsto> JNull]\<rparr>,
         \<lparr>date = ''2024-01-01'', readings = [''hr'' \<mapsto> JNum 72]\<rparr>,
         \<lparr>date = ''2024-01-01'', readings = [''hr'' \<mapsto> JNum 0, ''spo2'' \<mapsto> JNull]\<rparr>],
      tips = []\<rparr>"

text \<open>The same records with no keys declared.\<close>

definition legacyData :: HealthData where
  "legacyData = exampleData\<lparr>available_metrics := None\<rparr>"



text \<open>
  Three outcomes of the fetch: the endpoint answers \<open>success: false\<close> with a detail, the
  transport answers with a status that is not ok, the endpoint answers with data.
\<close>

definition appFailure :: "string option \<Rightarrow> fetch_outcome" where
  "appFailure dt = Resolved \<lparr>ok = True, json = Json \<lparr>success = False, detail = dt, result_data = None\<rparr>\<rparr>"

definition httpFailure :: fetch_outcome where
  "httpFailure = Resolved \<lparr>ok = False, json = JsonRejected ''Unexpected token''\<rparr>"

definition appSuccess :: "HealthData \<Rightarrow> fetch_outcome" where
  "appSuccess d = Resolved \<lparr>ok = True, json = Json \<lparr>success = True, detail = None, result_data = Some d\<rparr>\<rparr>"

text \<open>The page after one successful load of \<open>exampleData\<close>.\<close>

definition loadedPage :: page_state where
  "loadedPage = snd (generateInsights sampleTime (appSuccess exampleData) (freshPage ''p1''))"

text \<open>Eight keys, and the same keys with the first and the last exchanged.\<close>

definition eightKeys :: "string list" where
  "eightKeys = [''Systolic BP'', ''Diastolic BP'', ''Heart Rate'', ''Blood Sugar'',
                ''Weight'', ''SpO2'', ''Temperature'', ''Cholesterol'']"

definition eightKeysSwapped :: "string list" where
  "eightKeysSwapped = [''Cholesterol'', ''Diastolic BP'', ''Heart Rate'', ''Blood Sugar'',
                ''Weight'', ''SpO2'', ''Temperature'', ''Systolic BP'']"

text \<open>
  An export in which every step works, and four in which one step fails: the capture is
  rejected, the canvas refuses to hand out its image, the image cannot be placed, the
  file cannot be saved.
\<close>

definition workingEnv :: export_env where
  "workingEnv = \<lparr>html2canvas = Inr \<lparr>canvas_width = 1600, canvas_height = 2400,
                                     toDataURL = Inr ''data:image/png;base64,iVBOR''\<rparr>,
                 addImage = None, save = None, today = ''2024-03-01''\<rparr>"

definition rejectingEnv :: export_env where
  "rejectingEnv = workingEnv\<lparr>html2canvas := Inl (Error ''Unable to find element in cloned iframe'')\<rparr>"

definition taintedEnv :: export_env where
  "taintedEnv = workingEnv\<lparr>html2canvas := Inr \<lparr>canvas_width = 1600, canvas_height = 2400,
                                                 toDataURL = Inl (Error ''Tainted canvases may not be exported.'')\<rparr>\<rparr>"

definition addImageFailsEnv :: export_env where
  "addImageFailsEnv = workingEnv\<lparr>addImage := Some (Error ''Invalid argument passed to jsPDF.addImage'')\<rparr>"

definition saveFailsEnv :: export_env where
  "saveFailsEnv = workingEnv\<lparr>save := Some (Error ''The operation is insecure.'')\<rparr>"

section \<open>Properties of the normalisation\<close>

lemma sort_insert_insort:
  assumes "getTime (date x) \<noteq> None" "dates_parse getTime ys"
  shows "sort_insert (byDate getTime) x ys = insort_key (time_key getTime) x ys"
  using assms
  by (induction ys) (auto simp: byDate_def time_key_def dates_parse_def)

lemma dates_parse_insort:
  "dates_parse getTime (insort_key f x ys) = (getTime (date x) \<noteq> None \<and> dates_parse getTime ys)"
  by (induction ys) (auto simp: dates_parse_def)

lemma array_sort_sort_key:
  "dates_parse getTime xs \<Longrightarrow>
   array_sort (byDate getTime) xs = sort_key (time_key getTime) xs
   \<and> dates_parse getTime (sort_key (time_key getTime) xs)"
proof (induction xs)
  case Nil
  then show ?case by (simp add: array_sort_def dates_parse_def)
next
  case (Cons x xs)
  then have px: "getTime (date x) \<noteq> None" and pxs: "dates_parse getTime xs"
    by (simp_all add: dates_parse_def)
  from Cons.IH [OF pxs]
  have eq: "array_sort (byDate getTime) xs = sort_key (time_key getTime) xs"
    and ps: "dates_parse getTime (sort_key (time_key getTime) xs)" by simp_all
  have "array_sort (byDate getTime) (x # xs)
        = sort_insert (byDate getTime) x (sort_key (time_key getTime) xs)"
    using eq by (simp add: array_sort_def)
  also have "\<dots> = insort_key (time_key getTime) x (sort_key (time_key getTime) xs)"
    by (rule sort_insert_insort [OF px ps])
  finally show ?case
    using px ps by (simp add: dates_parse_insort)
qed

lemma dates_parse_filter:
  "dates_parse getTime xs \<Longrightarrow> dates_parse getTime (filter P xs)"
  by (induction xs) (auto simp: dates_parse_def)

lemma date_le_time_key:
  "getTime (date a) \<noteq> None \<Longrightarrow> getTime (date b) \<noteq> None \<Longrightarrow>
   date_le getTime a b = (time_key getTime a \<le> time_key getTime b)"
  by (auto simp: date_le_def time_key_def)

lemma sorted_time_key_date_le:
  assumes "dates_parse getTime xs" "sorted (map (time_key getTime) xs)"
  shows "sorted_wrt (date_le getTime) xs"
proof -
  have "sorted_wrt (\<lambda>a b. time_key getTime a \<le> time_key getTime b) xs"
    using assms(2) by (simp add: sorted_map)
  moreover have "date_le getTime a b"
    if "a \<in> set xs" "b \<in> set xs" "time_key getTime a \<le> time_key getTime b" for a b
    using that assms(1) by (simp add: date_le_time_key dates_parse_def list_all_iff)
  ultimately show ?thesis
    by (rule sorted_wrt_mono_rel [rotated])
qed

lemma validMetrics_sort_key:
  "dates_parse getTime (metrics d) \<Longrightarrow>
   validMetrics getTime d
   = sort_key (time_key getTime) (filter (keepMetric (available_metrics d)) (metrics d))"
  by (simp add: validMetrics_def array_sort_sort_key dates_parse_filter)

lemma validMetrics_dates_parse:
  "dates_parse getTime (metrics d) \<Longrightarrow> dates_parse getTime (validMetrics getTime d)"
  using array_sort_sort_key [of getTime "filter (keepMetric (available_metrics d)) (metrics d)"]
  by (simp add: validMetrics_def dates_parse_filter)

lemma validMetrics_sorted:
  assumes "dates_parse getTime (metrics d)"
  shows "sorted_wrt (date_le getTime) (validMetrics getTime d)"
proof -
  have "sorted (map (time_key getTime) (validMetrics getTime d))"
    by (simp add: validMetrics_sort_key [OF assms])
  with validMetrics_dates_parse [OF assms] show ?thesis
    by (rule sorted_time_key_date_le)
qed

lemma filter_same_date:
  "dates_parse getTime xs \<Longrightarrow>
   filter (\<lambda>m. getTime (date m) = Some t) xs = filter (\<lambda>m. time_key getTime m = t) xs"
  by (induction xs) (auto simp: dates_parse_def time_key_def)

lemma validMetrics_stable:
  assumes "dates_parse getTime (metrics d)"
  shows "filter (\<lambda>m. getTime (date m) = Some t) (validMetrics getTime d)
         = filter (\<lambda>m. getTime (date m) = Some t)
             (filter (keepMetric (available_metrics d)) (metrics d))"
proof -
  let ?kept = "filter (keepMetric (available_metrics d)) (metrics d)"
  have "filter (\<lambda>m. getTime (date m) = Some t) (validMetrics getTime d)
        = filter (\<lambda>m. time_key getTime m = t) (validMetrics getTime d)"
    by (rule filter_same_date [OF validMetrics_dates_parse [OF assms]])
  also have "\<dots> = filter (\<lambda>m. time_key getTime m = t) ?kept"
    by (simp add: validMetrics_sort_key [OF assms] sort_key_stable)
  also have "\<dots> = filter (\<lambda>m. getTime (date m) = Some t) ?kept"
    by (rule filter_same_date [symmetric, OF dates_parse_filter [OF assms]])
  finally show ?thesis .
qed


lemma mset_sort_insert: "mset (sort_insert cmp x ys) = add_mset x (mset ys)"
  by (induction ys) auto

lemma mset_array_sort: "mset (array_sort cmp xs) = mset xs"
  by (induction xs) (auto simp: array_sort_def mset_sort_insert)



lemma exampleData_dates: "dates_parse sampleTime (metrics exampleData)"
  by (simp add: exampleData_def dates_parse_def sampleTime_def)

lemma exampleData_valid:
  "validMetrics sampleTime exampleData =
     [\<lparr>date = ''2024-01-01'', readings = [''hr'' \<mapsto> JNum 72]\<rparr>,
      \<lparr>date = ''2024-01-01'', readings = [''hr'' \<mapsto> JNum 0, ''spo2'' \<mapsto> JNull]\<rparr>,
      \<lparr>date = ''2024-02-01'', readings = [''hr'' \<mapsto> JNum 70]\<rparr>]"
  by (simp add: validMetrics_def exampleData_def keepMetric_def getProp_def array_sort_def
      byDate_def sampleTime_def)




lemma set_array_sort: "set (array_sort cmp xs) = set xs"
  using mset_array_sort [of cmp xs] by (metis set_mset_mset)

text \<open>
  C2. Normalising is idempotent: for a result whose record dates parse, the result whose
  \<open>metrics\<close> are the normalised list (and whose \<open>available_metrics\<close> are the same)
  normalises to that same list, so the second pass drops no record and moves none.
\<close>

theorem normalize_idempotent:
  assumes "dates_parse getTime (metrics d)"
  shows "validMetrics getTime (d\<lparr>metrics := validMetrics getTime d\<rparr>) = validMetrics getTime d"
proof -
  let ?keep = "keepMetric (available_metrics d)"
  let ?out = "validMetrics getTime d"
  let ?d' = "d\<lparr>metrics := ?out\<rparr>"
  have parse': "dates_parse getTime (metrics ?d')"
    using validMetrics_dates_parse [OF assms] by simp
  have "\<forall>m \<in> set ?out. ?keep m"
    by (simp add: validMetrics_def set_array_sort)
  then have kept: "filter ?keep ?out = ?out"
    by (simp add: filter_id_conv)
  have "sorted (map (time_key getTime) ?out)"
    by (simp add: validMetrics_sort_key [OF assms])
  then have fixed: "sort_key (time_key getTime) ?out = ?out"
    by (rule sort_key_id_if_sorted)
  have "validMetrics getTime ?d' = sort_key (time_key getTime) (filter ?keep ?out)"
    using validMetrics_sort_key [OF parse'] by simp
  with kept fixed show ?thesis by simp
qed

theorem normalize_idempotent_witness:
  "dates_parse sampleTime (metrics exampleData)
   \<and> validMetrics sampleTime (exampleData\<lparr>metrics := validMetrics sampleTime exampleData\<rparr>)
   = [\<lparr>date = ''2024-01-01'', readings = [''hr'' \<mapsto> JNum 72]\<rparr>,
      \<lparr>date = ''2024-01-01'', readings = [''hr'' \<mapsto> JNum 0, ''spo2'' \<mapsto> JNull]\<rparr>,
      \<lparr>date = ''2024-02-01'', readings = [''hr'' \<mapsto> JNum 70]\<rparr>]"
  using normalize_idempotent [OF exampleData_dates] exampleData_dates exampleData_valid
  by simp

text \<open>
  C3. When \<open>available_metrics\<close> is absent or empty, no record is filtered out, also not
  one whose every reading is \<open>null\<close>: the normalised list holds every record of
  \<open>metrics\<close>. When the dates of the records parse, it is in ascending order of the parsed
  date, with the records of any one date in the order they had in \<open>metrics\<close>.
\<close>

theorem normalize_without_keys:
  assumes "available_metrics d = None \<or> available_metrics d = Some []"
  shows "mset (validMetrics getTime d) = mset (metrics d)
       \<and> (dates_parse getTime (metrics d) \<longrightarrow>
            sorted_wrt (date_le getTime) (validMetrics getTime d)
          \<and> (\<forall>t. filter (\<lambda>m. getTime (date m) = Some t) (validMetrics getTime d)
                 = filter (\<lambda>m. getTime (date m) = Some t) (metrics d)))"
proof -
  have keep: "filter (keepMetric (available_metrics d)) (metrics d) = metrics d"
    using assms by (auto simp: keepMetric_def)
  have "mset (validMetrics getTime d) = mset (metrics d)"
    using keep by (simp add: validMetrics_def mset_array_sort)
  moreover have "sorted_wrt (date_le getTime) (validMetrics getTime d)"
    if "dates_parse getTime (metrics d)"
    using that by (rule validMetrics_sorted)
  moreover have "filter (\<lambda>m. getTime (date m) = Some t) (validMetrics getTime d)
        = filter (\<lambda>m. getTime (date m) = Some t) (metrics d)"
    if "dates_parse getTime (metrics d)" for t
    using validMetrics_stable [OF that, of t] keep by simp
  ultimately show ?thesis by blast
qed

lemma legacyData_valid:
  "validMetrics sampleTime legacyData =
     [\<lparr>date = ''2024-01-01'', readings = [''hr'' \<mapsto> JNull]\<rparr>,
      \<lparr>date = ''2024-01-01'', readings = [''hr'' \<mapsto> JNum 72]\<rparr>,
      \<lparr>date = ''2024-01-01'', readings = [''hr'' \<mapsto> JNum 0, ''spo2'' \<mapsto> JNull]\<rparr>,
      \<lparr>date = ''2024-02-01'', readings = [''hr'' \<mapsto> JNum 70]\<rparr>]"
  by (simp add: validMetrics_def legacyData_def exampleData_def keepMetric_def array_sort_def
      byDate_def sampleTime_def)

theorem normalize_without_keys_witness:
  "(available_metrics legacyData = None \<or> available_metrics legacyData = Some [])
   \<and> dates_parse sampleTime (metrics legacyData)
   \<and> validMetrics sampleTime legacyData =
     [\<lparr>date = ''2024-01-01'', readings = [''hr'' \<mapsto> JNull]\<rparr>,
      \<lparr>date = ''2024-01-01'', readings = [''hr'' \<mapsto> JNum 72]\<rparr>,
      \<lparr>date = ''2024-01-01'', readings = [''hr'' \<mapsto> JNum 0, ''spo2'' \<mapsto> JNull]\<rparr>,
      \<lparr>date = ''2024-02-01'', readings = [''hr'' \<mapsto> JNum 70]\<rparr>]
   \<and> mset (validMetrics sampleTime legacyData) = mset (metrics legacyData)
   \<and> sorted_wrt (date_le sampleTime) (validMetrics sampleTime legacyData)"
proof -
  have h1: "available_metrics legacyData = None \<or> available_metrics legacyData = Some []"
    by (simp add: legacyData_def)
  have h2: "dates_parse sampleTime (metrics legacyData)"
    using exampleData_dates by (simp add: legacyData_def)
  from normalize_without_keys [OF h1, of sampleTime] h1 h2 legacyData_valid
  show ?thesis by blast
qed

section \<open>Properties of the load operation\<close>

lemma generateInsights_failed:
  assumes "truthy (patientId s)" "fetchInsights getTime r = Inl e"
  shows "generateInsights getTime r s
         = (None, s\<lparr>store := (store s)\<lparr>loading := False,
               error := Some (or_default (Some (message e)) ''Could not load health insights.'')\<rparr>\<rparr>)"
  using assms
  by (simp add: generateInsights_def generateInsights_settle_def generateInsights_begin_def
      try_catch_finally_def loadBody_def loadCatch_def loadFinally_def
      setError_def setLoading_def)

lemma generateInsights_loaded:
  assumes "truthy (patientId s)" "fetchInsights getTime r = Inr d"
  shows "generateInsights getTime r s
         = (None, s\<lparr>store := (store s)\<lparr>data := Some d, loading := False, error := None,
               hasLoaded := True\<rparr>\<rparr>)"
  using assms
  by (simp add: generateInsights_def generateInsights_settle_def generateInsights_begin_def
      try_catch_finally_def loadBody_def loadCatch_def loadFinally_def
      setError_def setLoading_def setData_def setHasLoaded_def)

text \<open>
  C4. A load that starts from the initial store and fails (idle, loading, error) leaves
  \<open>hasLoaded\<close> false, with the error set. A load that succeeds, from any state and
  whether or not the normalised list is empty, sets \<open>hasLoaded\<close>, stores the data and
  leaves no error.
\<close>

theorem hasLoaded_after_load:
  assumes "truthy (patientId s)"
  shows "(store s = initialStore \<and> fetchInsights getTime r = Inl e \<longrightarrow>
            loading (store (generateInsights_begin s))
          \<and> error (store (snd (generateInsights getTime r s))) \<noteq> None
          \<and> \<not> hasLoaded (store (snd (generateInsights getTime r s))))
       \<and> (fetchInsights getTime r = Inr d \<longrightarrow>
            error (store (snd (generateInsights getTime r s))) = None
          \<and> data (store (snd (generateInsights getTime r s))) = Some d
          \<and> hasLoaded (store (snd (generateInsights getTime r s))))"
proof (intro conjI impI)
  assume a: "store s = initialStore \<and> fetchInsights getTime r = Inl e"
  show "loading (store (generateInsights_begin s))"
    by (simp add: generateInsights_begin_def setError_def setLoading_def)
  from a show "error (store (snd (generateInsights getTime r s))) \<noteq> None"
    by (simp add: generateInsights_failed [OF assms])
  from a show "\<not> hasLoaded (store (snd (generateInsights getTime r s)))"
    by (simp add: generateInsights_failed [OF assms] initialStore_def)
next
  assume b: "fetchInsights getTime r = Inr d"
  show "error (store (snd (generateInsights getTime r s))) = None"
    by (simp add: generateInsights_loaded [OF assms b])
  show "data (store (snd (generateInsights getTime r s))) = Some d"
    by (simp add: generateInsights_loaded [OF assms b])
  show "hasLoaded (store (snd (generateInsights getTime r s)))"
    by (simp add: generateInsights_loaded [OF assms b])
qed

lemma fetch_httpFailure: "fetchInsights getTime httpFailure = Inl (Error ''Failed to fetch health insights'')"
  by (simp add: fetchInsights_def httpFailure_def)

lemma fetch_appSuccess: "fetchInsights getTime (appSuccess d) = Inr (d\<lparr>metrics := validMetrics getTime d\<rparr>)"
  by (simp add: fetchInsights_def appSuccess_def)

lemma fetch_appFailure: "fetchInsights getTime (appFailure dt) = Inl (Error (or_default dt ''Unknown error''))"
  by (simp add: fetchInsights_def appFailure_def)

lemma truthy_freshPage: "truthy (patientId (freshPage ''p1''))"
  by (simp add: truthy_def freshPage_def)

theorem hasLoaded_after_load_witness:
  "truthy (patientId (freshPage ''p1'')) \<and> store (freshPage ''p1'') = initialStore
   \<and> fetchInsights sampleTime httpFailure = Inl (Error ''Failed to fetch health insights'')
   \<and> \<not> hasLoaded (store (snd (generateInsights sampleTime httpFailure (freshPage ''p1''))))
   \<and> fetchInsights sampleTime (appSuccess exampleData)
       = Inr (exampleData\<lparr>metrics := validMetrics sampleTime exampleData\<rparr>)
   \<and> hasLoaded (store (snd (generateInsights sampleTime (appSuccess exampleData) (freshPage ''p1''))))"
proof -
  have h0: "store (freshPage ''p1'') = initialStore"
    by (simp add: freshPage_def)
  from hasLoaded_after_load [OF truthy_freshPage, of sampleTime httpFailure
      "Error ''Failed to fetch health insights''" exampleData]
    hasLoaded_after_load [OF truthy_freshPage, of sampleTime "appSuccess exampleData"
      TypeError "exampleData\<lparr>metrics := validMetrics sampleTime exampleData\<rparr>"]
    truthy_freshPage h0 fetch_httpFailure [of sampleTime] fetch_appSuccess [of sampleTime exampleData]
  show ?thesis by blast
qed

text \<open>
  C5, as stated, fails for the empty detail text: the payload \<open>success: false\<close> with
  \<open>detail: ""\<close> leaves the error \<open>Unknown error\<close> in the store, not the empty text.
\<close>

theorem empty_detail_counterexample:
  "error (store (snd (generateInsights sampleTime (appFailure (Some '''')) (freshPage ''p1''))))
     = Some ''Unknown error''
   \<and> error (store (snd (generateInsights sampleTime (appFailure (Some '''')) (freshPage ''p1''))))
     \<noteq> Some ''''"
  by (simp add: generateInsights_failed [OF truthy_freshPage fetch_appFailure] or_default_def)

text \<open>
  C5, amended. When the transport response is ok and the payload reports
  \<open>success: false\<close> with the detail text \<open>X\<close>, the error stored is \<open>X\<close> if \<open>X\<close> is not
  empty, and the generic \<open>Unknown error\<close> if it is.
\<close>

theorem application_failure_detail:
  assumes "truthy (patientId s)"
  shows "error (store (snd (generateInsights getTime
             (Resolved \<lparr>ok = True, json = Json \<lparr>success = False, detail = Some X, result_data = dt\<rparr>\<rparr>) s)))
         = Some (if X = [] then ''Unknown error'' else X)"
proof -
  have "fetchInsights getTime
          (Resolved \<lparr>ok = True, json = Json \<lparr>success = False, detail = Some X, result_data = dt\<rparr>\<rparr>)
        = Inl (Error (or_default (Some X) ''Unknown error''))"
    by (simp add: fetchInsights_def)
  from generateInsights_failed [OF assms this] show ?thesis
    by (simp add: or_default_def)
qed

theorem application_failure_detail_witness:
  "truthy (patientId (freshPage ''p1''))
   \<and> error (store (snd (generateInsights sampleTime
             (Resolved \<lparr>ok = True, json = Json \<lparr>success = False, detail = Some ''No records found'',
                 result_data = None\<rparr>\<rparr>) (freshPage ''p1'')))) = Some ''No records found''"
  using application_failure_detail [OF truthy_freshPage, of sampleTime "''No records found''" None]
    truthy_freshPage
  by simp

text \<open>
  C6. A load that fails leaves the \<open>data\<close> field (and \<open>hasLoaded\<close>) as they were, both
  when it starts and when it has settled: of the store, only \<open>loading\<close> and \<open>error\<close>
  change.
\<close>

theorem failed_fetch_keeps_data:
  assumes "fetchInsights getTime r = Inl e"
  shows "data (store (generateInsights_begin s)) = data (store s)
       \<and> data (store (snd (generateInsights getTime r s))) = data (store s)
       \<and> hasLoaded (store (snd (generateInsights getTime r s))) = hasLoaded (store s)
       \<and> (truthy (patientId s) \<longrightarrow>
            store (snd (generateInsights getTime r s))
            = (store s)\<lparr>loading := False,
                 error := Some (or_default (Some (message e)) ''Could not load health insights.'')\<rparr>)"
proof (cases "truthy (patientId s)")
  case True
  from generateInsights_failed [OF True assms] show ?thesis
    by (simp add: generateInsights_begin_def setError_def setLoading_def)
next
  case False
  then show ?thesis
    by (simp add: generateInsights_def generateInsights_begin_def setError_def setLoading_def)
qed

lemma loadedPage_eq:
  "loadedPage = (freshPage ''p1'')\<lparr>store := initialStore\<lparr>data := Some (exampleData\<lparr>metrics := validMetrics sampleTime exampleData\<rparr>),
       loading := False, error := None, hasLoaded := True\<rparr>\<rparr>"
  unfolding loadedPage_def generateInsights_loaded [OF truthy_freshPage fetch_appSuccess]
  by (simp add: freshPage_def)

theorem failed_fetch_keeps_data_witness:
  "fetchInsights sampleTime httpFailure = Inl (Error ''Failed to fetch health insights'')
   \<and> data (store loadedPage) = Some (exampleData\<lparr>metrics := validMetrics sampleTime exampleData\<rparr>)
   \<and> data (store (snd (generateInsights sampleTime httpFailure loadedPage)))
      = Some (exampleData\<lparr>metrics := validMetrics sampleTime exampleData\<rparr>)
   \<and> error (store (snd (generateInsights sampleTime httpFailure loadedPage)))
      = Some ''Failed to fetch health insights''"
proof -
  have t: "truthy (patientId loadedPage)"
    by (simp add: loadedPage_eq freshPage_def truthy_def)
  have d: "data (store loadedPage) = Some (exampleData\<lparr>metrics := validMetrics sampleTime exampleData\<rparr>)"
    by (simp add: loadedPage_eq)
  from failed_fetch_keeps_data [OF fetch_httpFailure, where getTime = sampleTime and s = loadedPage] t d
    fetch_httpFailure [of sampleTime]
  show ?thesis by (simp add: or_default_def)
qed

text \<open>
  C10. Once the continuation of a load for a resolved patient has run, \<open>loading\<close> is
  false, whatever the fetch came back with, and no exception has escaped the operation.
\<close>

theorem load_clears_loading:
  assumes "truthy (patientId s)"
  shows "fst (generateInsights getTime r s) = None
       \<and> loading (store (snd (generateInsights getTime r s))) = False"
proof (cases "fetchInsights getTime r")
  case (Inl e)
  from generateInsights_failed [OF assms Inl] show ?thesis by simp
next
  case (Inr d)
  from generateInsights_loaded [OF assms Inr] show ?thesis by simp
qed

theorem load_clears_loading_witness:
  "truthy (patientId (freshPage ''p1''))
   \<and> loading (store (generateInsights_begin (freshPage ''p1'')))
   \<and> \<not> loading (store (snd (generateInsights sampleTime httpFailure (freshPage ''p1''))))
   \<and> \<not> loading (store (snd (generateInsights sampleTime (appSuccess exampleData) (freshPage ''p1''))))"
  using load_clears_loading [OF truthy_freshPage, of sampleTime httpFailure]
    load_clears_loading [OF truthy_freshPage, of sampleTime "appSuccess exampleData"]
    truthy_freshPage
  by (simp add: generateInsights_begin_def setError_def setLoading_def)

section \<open>Properties of the chart series\<close>

lemma length_colors: "length DYNAMIC_COLORS = 7"
  by (simp add: DYNAMIC_COLORS_def)

lemma distinct_colors: "distinct DYNAMIC_COLORS"
  by (simp add: DYNAMIC_COLORS_def)

lemma length_pageAreas: "length (pageAreas (Some ks)) = length ks"
  by (simp add: pageAreas_def)

lemma nth_pageAreas:
  "i < length ks \<Longrightarrow>
   pageAreas (Some ks) ! i
   = \<lparr>dataKey = ks ! i, name = ks ! i, stroke = DYNAMIC_COLORS ! (i mod 7),
      fill = ''url(#color'' @ decimal i @ '')'', connectNulls = True\<rparr>"
  by (simp add: pageAreas_def length_colors del: decimal.simps)

lemma length_assignedColors: "length (assignedColors ks) = length ks"
  by (simp add: assignedColors_def length_pageAreas)

lemma nth_assignedColors:
  "i < length ks \<Longrightarrow> assignedColors ks ! i = (ks ! i, DYNAMIC_COLORS ! (i mod 7))"
  by (simp add: assignedColors_def length_pageAreas nth_pageAreas del: decimal.simps)

lemma colors_inj:
  "i < 7 \<Longrightarrow> j < 7 \<Longrightarrow> DYNAMIC_COLORS ! i = DYNAMIC_COLORS ! j \<Longrightarrow> i = j"
  using distinct_colors length_colors by (simp add: nth_eq_iff_index_eq)

lemma reorder_changes_colors:
  assumes len: "length ks' = length ks" and short: "length ks \<le> 7" and ne: "ks' \<noteq> ks"
  shows "set (assignedColors ks') \<noteq> set (assignedColors ks)"
proof
  assume eq: "set (assignedColors ks') = set (assignedColors ks)"
  from len ne obtain i where i: "i < length ks" and diff: "ks' ! i \<noteq> ks ! i"
    by (auto simp: list_eq_iff_nth_eq)
  have "assignedColors ks' ! i \<in> set (assignedColors ks')"
    using i len by (simp add: length_assignedColors)
  then have "(ks' ! i, DYNAMIC_COLORS ! (i mod 7)) \<in> set (assignedColors ks)"
    using eq i len by (simp add: nth_assignedColors)
  then obtain j where j: "j < length ks"
    and hit: "assignedColors ks ! j = (ks' ! i, DYNAMIC_COLORS ! (i mod 7))"
    by (auto simp: in_set_conv_nth length_assignedColors)
  from hit j have k: "ks ! j = ks' ! i" and c: "DYNAMIC_COLORS ! (j mod 7) = DYNAMIC_COLORS ! (i mod 7)"
    by (simp_all add: nth_assignedColors)
  from i j short have "i < 7" "j < 7" by simp_all
  with c have "j = i" by (simp add: colors_inj)
  with k diff show False by simp
qed

text \<open>
  C7, amended. The series at index \<open>i\<close> is the series of the key at index \<open>i\<close>, drawn
  in the palette entry at index \<open>i mod 7\<close>, the same in every call. For a key sequence of
  at most seven entries, every reordering that changes the sequence changes the colour
  of at least one key.
\<close>

theorem color_by_index:
  "(i < length ks \<longrightarrow>
      dataKey (pageAreas (Some ks) ! i) = ks ! i
    \<and> stroke (pageAreas (Some ks) ! i) = DYNAMIC_COLORS ! (i mod 7))
   \<and> (mset ks' = mset ks \<and> ks' \<noteq> ks \<and> length ks \<le> 7 \<longrightarrow>
        set (assignedColors ks') \<noteq> set (assignedColors ks))"
proof (intro conjI impI)
  assume "i < length ks"
  then show "dataKey (pageAreas (Some ks) ! i) = ks ! i"
    and "stroke (pageAreas (Some ks) ! i) = DYNAMIC_COLORS ! (i mod 7)"
    by (simp_all add: nth_pageAreas del: decimal.simps)
next
  assume a: "mset ks' = mset ks \<and> ks' \<noteq> ks \<and> length ks \<le> 7"
  then have "length ks' = length ks"
    by (metis size_mset)
  with a show "set (assignedColors ks') \<noteq> set (assignedColors ks)"
    by (simp add: reorder_changes_colors)
qed

lemma assigned_eight:
  "assignedColors eightKeys =
     [(''Systolic BP'', ''#ef4444''), (''Diastolic BP'', ''#3b82f6''), (''Heart Rate'', ''#10b981''),
      (''Blood Sugar'', ''#f59e0b''), (''Weight'', ''#8b5cf6''), (''SpO2'', ''#ec4899''),
      (''Temperature'', ''#14b8a6''), (''Cholesterol'', ''#ef4444'')]"
  by (simp add: assignedColors_def pageAreas_def eightKeys_def DYNAMIC_COLORS_def upt_rec
      del: decimal.simps)

lemma assigned_eight_swapped:
  "assignedColors eightKeysSwapped =
     [(''Cholesterol'', ''#ef4444''), (''Diastolic BP'', ''#3b82f6''), (''Heart Rate'', ''#10b981''),
      (''Blood Sugar'', ''#f59e0b''), (''Weight'', ''#8b5cf6''), (''SpO2'', ''#ec4899''),
      (''Temperature'', ''#14b8a6''), (''Systolic BP'', ''#ef4444'')]"
  by (simp add: assignedColors_def pageAreas_def eightKeysSwapped_def DYNAMIC_COLORS_def upt_rec
      del: decimal.simps)

text \<open>
  C7, as stated, fails once the palette wraps around: with eight keys, exchanging the
  first and the last is a reordering that leaves every key in the colour it had, while
  more than one colour of the palette is in use.
\<close>

theorem reorder_keeps_colors_counterexample:
  "mset eightKeysSwapped = mset eightKeys \<and> eightKeysSwapped \<noteq> eightKeys
   \<and> snd (assignedColors eightKeys ! 0) \<noteq> snd (assignedColors eightKeys ! 1)
   \<and> set (assignedColors eightKeysSwapped) = set (assignedColors eightKeys)"
proof (intro conjI)
  show "mset eightKeysSwapped = mset eightKeys"
    by (simp add: eightKeysSwapped_def eightKeys_def)
  show "eightKeysSwapped \<noteq> eightKeys"
    by (simp add: eightKeysSwapped_def eightKeys_def)
  show "snd (assignedColors eightKeys ! 0) \<noteq> snd (assignedColors eightKeys ! 1)"
    by (simp add: assigned_eight)
  show "set (assignedColors eightKeysSwapped) = set (assignedColors eightKeys)"
    unfolding assigned_eight assigned_eight_swapped by auto
qed

theorem color_by_index_witness:
  "(1::nat) < length [''Heart Rate'', ''Blood Sugar'']
   \<and> stroke (pageAreas (Some [''Heart Rate'', ''Blood Sugar'']) ! 1) = ''#3b82f6''
   \<and> mset [''Blood Sugar'', ''Heart Rate''] = mset [''Heart Rate'', ''Blood Sugar'']
   \<and> [''Blood Sugar'', ''Heart Rate''] \<noteq> [''Heart Rate'', ''Blood Sugar'']
   \<and> length [''Heart Rate'', ''Blood Sugar''] \<le> 7
   \<and> set (assignedColors [''Blood Sugar'', ''Heart Rate''])
       \<noteq> set (assignedColors [''Heart Rate'', ''Blood Sugar''])"
  using color_by_index [of 1 "[''Heart Rate'', ''Blood Sugar'']" "[''Blood Sugar'', ''Heart Rate'']"]
  by (simp add: DYNAMIC_COLORS_def)




section \<open>Properties of the report export\<close>

lemma downloadPDF_failed:
  assumes "fst (exportBody env (s\<lparr>isDownloading := True\<rparr>)) = Some e"
  shows "downloadPDF env True s
         = (None, s\<lparr>isDownloading := False,
                    alerts := alerts s @ [''Failed to generate PDF report.'']\<rparr>)"
proof -
  have "snd (exportBody env (s\<lparr>isDownloading := True\<rparr>)) = s\<lparr>isDownloading := True\<rparr>"
    using assms by (auto simp: exportBody_def split: sum.splits option.splits)
  with assms have "exportBody env (s\<lparr>isDownloading := True\<rparr>) = (Some e, s\<lparr>isDownloading := True\<rparr>)"
    by (simp add: prod_eq_iff)
  then show ?thesis
    by (simp add: downloadPDF_def try_catch_finally_def exportCatch_def exportFinally_def)
qed

lemma downloadPDF_saved:
  assumes "fst (exportBody env (s\<lparr>isDownloading := True\<rparr>)) = None"
  shows "downloadPDF env True s
         = (None, s\<lparr>isDownloading := False,
                    downloads := downloads s @ [''Health_Insights_Report_'' @ today env @ ''.pdf'']\<rparr>)"
proof -
  have "exportBody env (s\<lparr>isDownloading := True\<rparr>)
        = (None, s\<lparr>isDownloading := True,
                    downloads := downloads s @ [''Health_Insights_Report_'' @ today env @ ''.pdf'']\<rparr>)"
    using assms by (auto simp: exportBody_def split: sum.splits option.splits)
  then show ?thesis
    by (simp add: downloadPDF_def try_catch_finally_def exportCatch_def exportFinally_def)
qed

lemma exportBody_fails:
  assumes "html2canvas env = Inl e
           \<or> (\<exists>cv. html2canvas env = Inr cv \<and> toDataURL cv = Inl e)
           \<or> addImage env = Some e \<or> save env = Some e"
  shows "fst (exportBody env s) \<noteq> None"
  using assms by (auto simp: exportBody_def split: sum.splits option.splits)

lemma exportBody_works:
  assumes "html2canvas env = Inr cv" "toDataURL cv = Inr img"
    "addImage env = None" "save env = None"
  shows "fst (exportBody env s) = None"
  using assms by (simp add: exportBody_def)

text \<open>
  C9. downloadPDF never changes the store (\<open>data\<close>, \<open>loading\<close>, \<open>error\<close> and
  \<open>hasLoaded\<close> are as before) and no exception escapes it, whatever the capture and the
  assembly do. When any step of them fails (the capture is rejected, or the canvas, the
  placing of the image or the saving throws), the user is shown the failure message and
  no file is saved; when every step works, the report file is saved and nothing is
  shown.
\<close>

theorem export_keeps_session:
  "fst (downloadPDF env mounted s) = None
   \<and> store (snd (downloadPDF env mounted s)) = store s
   \<and> (mounted \<and> (html2canvas env = Inl e
                  \<or> (\<exists>cv. html2canvas env = Inr cv \<and> toDataURL cv = Inl e)
                  \<or> addImage env = Some e \<or> save env = Some e) \<longrightarrow>
        alerts (snd (downloadPDF env mounted s)) = alerts s @ [''Failed to generate PDF report.'']
      \<and> downloads (snd (downloadPDF env mounted s)) = downloads s)
   \<and> (mounted \<and> html2canvas env = Inr cv \<and> toDataURL cv = Inr img
        \<and> addImage env = None \<and> save env = None \<longrightarrow>
        alerts (snd (downloadPDF env mounted s)) = alerts s
      \<and> downloads (snd (downloadPDF env mounted s))
         = downloads s @ [''Health_Insights_Report_'' @ today env @ ''.pdf''])"
proof (intro conjI impI)
  show "fst (downloadPDF env mounted s) = None"
  proof (cases "fst (exportBody env (s\<lparr>isDownloading := True\<rparr>))")
    case None
    from downloadPDF_saved [OF None] show ?thesis
      by (cases mounted) (simp_all add: downloadPDF_def)
  next
    case (Some x)
    from downloadPDF_failed [OF Some] show ?thesis
      by (cases mounted) (simp_all add: downloadPDF_def)
  qed
  show "store (snd (downloadPDF env mounted s)) = store s"
  proof (cases "fst (exportBody env (s\<lparr>isDownloading := True\<rparr>))")
    case None
    from downloadPDF_saved [OF None] show ?thesis
      by (cases mounted) (simp_all add: downloadPDF_def)
  next
    case (Some x)
    from downloadPDF_failed [OF Some] show ?thesis
      by (cases mounted) (simp_all add: downloadPDF_def)
  qed
next
  assume a: "mounted \<and> (html2canvas env = Inl e
                  \<or> (\<exists>cv. html2canvas env = Inr cv \<and> toDataURL cv = Inl e)
                  \<or> addImage env = Some e \<or> save env = Some e)"
  then have "fst (exportBody env (s\<lparr>isDownloading := True\<rparr>)) \<noteq> None"
    using exportBody_fails [of env e] by blast
  then obtain x where x: "fst (exportBody env (s\<lparr>isDownloading := True\<rparr>)) = Some x"
    by blast
  from downloadPDF_failed [OF x] a
  show "alerts (snd (downloadPDF env mounted s)) = alerts s @ [''Failed to generate PDF report.'']"
    and "downloads (snd (downloadPDF env mounted s)) = downloads s"
    by simp_all
next
  assume b: "mounted \<and> html2canvas env = Inr cv \<and> toDataURL cv = Inr img
        \<and> addImage env = None \<and> save env = None"
  then have "fst (exportBody env (s\<lparr>isDownloading := True\<rparr>)) = None"
    using exportBody_works [of env cv img] by blast
  from downloadPDF_saved [OF this] b
  show "alerts (snd (downloadPDF env mounted s)) = alerts s"
    and "downloads (snd (downloadPDF env mounted s))
         = downloads s @ [''Health_Insights_Report_'' @ today env @ ''.pdf'']"
    by simp_all
qed

lemma loadedPage_shown: "alerts loadedPage = []" "downloads loadedPage = []"
  by (simp_all add: loadedPage_eq freshPage_def)

theorem export_keeps_session_witness:
  "html2canvas rejectingEnv = Inl (Error ''Unable to find element in cloned iframe'')
   \<and> store (snd (downloadPDF rejectingEnv True loadedPage)) = store loadedPage
   \<and> alerts (snd (downloadPDF rejectingEnv True loadedPage)) = [''Failed to generate PDF report.'']
   \<and> (\<exists>cv. html2canvas taintedEnv = Inr cv
            \<and> toDataURL cv = Inl (Error ''Tainted canvases may not be exported.''))
   \<and> alerts (snd (downloadPDF taintedEnv True loadedPage)) = [''Failed to generate PDF report.'']
   \<and> addImage addImageFailsEnv = Some (Error ''Invalid argument passed to jsPDF.addImage'')
   \<and> alerts (snd (downloadPDF addImageFailsEnv True loadedPage)) = [''Failed to generate PDF report.'']
   \<and> downloads (snd (downloadPDF addImageFailsEnv True loadedPage)) = []
   \<and> save saveFailsEnv = Some (Error ''The operation is insecure.'')
   \<and> alerts (snd (downloadPDF saveFailsEnv True loadedPage)) = [''Failed to generate PDF report.'']
   \<and> downloads (snd (downloadPDF saveFailsEnv True loadedPage)) = []
   \<and> alerts (snd (downloadPDF workingEnv True loadedPage)) = []
   \<and> downloads (snd (downloadPDF workingEnv True loadedPage))
      = [''Health_Insights_Report_2024-03-01.pdf'']"
proof -
  have r: "html2canvas rejectingEnv = Inl (Error ''Unable to find element in cloned iframe'')"
    by (simp add: rejectingEnv_def)
  have t: "\<exists>cv. html2canvas taintedEnv = Inr cv
              \<and> toDataURL cv = Inl (Error ''Tainted canvases may not be exported.'')"
    by (simp add: taintedEnv_def)
  have i: "addImage addImageFailsEnv = Some (Error ''Invalid argument passed to jsPDF.addImage'')"
    by (simp add: addImageFailsEnv_def)
  have v: "save saveFailsEnv = Some (Error ''The operation is insecure.'')"
    by (simp add: saveFailsEnv_def)
  have w: "html2canvas workingEnv
             = Inr \<lparr>canvas_width = 1600, canvas_height = 2400,
                    toDataURL = Inr ''data:image/png;base64,iVBOR''\<rparr>"
      "toDataURL \<lparr>canvas_width = 1600, canvas_height = 2400,
                  toDataURL = Inr ''data:image/png;base64,iVBOR''\<rparr>
         = Inr ''data:image/png;base64,iVBOR''"
      "addImage workingEnv = None" "save workingEnv = None" "today workingEnv = ''2024-03-01''"
    by (simp_all add: workingEnv_def)
  from export_keeps_session [of rejectingEnv True loadedPage
        "Error ''Unable to find element in cloned iframe''"]
    export_keeps_session [of taintedEnv True loadedPage
        "Error ''Tainted canvases may not be exported.''"]
    export_keeps_session [of addImageFailsEnv True loadedPage
        "Error ''Invalid argument passed to jsPDF.addImage''"]
    export_keeps_session [of saveFailsEnv True loadedPage "Error ''The operation is insecure.''"]
    export_keeps_session [of workingEnv True loadedPage _
        "\<lparr>canvas_width = 1600, canvas_height = 2400,
          toDataURL = Inr ''data:image/png;base64,iVBOR''\<rparr>" "''data:image/png;base64,iVBOR''"]
    r t i v w loadedPage_shown
  show ?thesis by simp
qed

end
